theory Spec2Isabelle
  imports Complex_Main
begin

section \<open>Numbers\<close>

text \<open>
  A JavaScript number is modelled as an exact real extended with the three IEEE special
  values. Rounding, overflow and the sign of zero are not modelled: a finite result is the
  exact real result, and zero is read as \<open>+0\<close>. The rules for the special values are
  those of IEEE 754 as ECMAScript fixes them.
\<close>

datatype jsnum = Num real | PosInf | NegInf | NaN

fun jneg :: "jsnum \<Rightarrow> jsnum" where
  "jneg (Num x) = Num (- x)"
| "jneg PosInf = NegInf"
| "jneg NegInf = PosInf"
| "jneg NaN = NaN"

fun jadd :: "jsnum \<Rightarrow> jsnum \<Rightarrow> jsnum" where
  "jadd NaN _ = NaN"
| "jadd _ NaN = NaN"
| "jadd (Num x) (Num y) = Num (x + y)"
| "jadd PosInf NegInf = NaN"
| "jadd NegInf PosInf = NaN"
| "jadd PosInf _ = PosInf"
| "jadd _ PosInf = PosInf"
| "jadd NegInf _ = NegInf"
| "jadd _ NegInf = NegInf"

definition jsub :: "jsnum \<Rightarrow> jsnum \<Rightarrow> jsnum" where
  "jsub a b = jadd a (jneg b)"

text \<open>The product of an infinity with a finite factor: zero gives NaN, else the sign decides.\<close>

definition inf_times :: "jsnum \<Rightarrow> real \<Rightarrow> jsnum" where
  "inf_times i x = (if x = 0 then NaN else if 0 < x then i else jneg i)"

fun jmul :: "jsnum \<Rightarrow> jsnum \<Rightarrow> jsnum" where
  "jmul NaN _ = NaN"
| "jmul _ NaN = NaN"
| "jmul (Num x) (Num y) = Num (x * y)"
| "jmul (Num x) i = inf_times i x"
| "jmul i (Num y) = inf_times i y"
| "jmul PosInf PosInf = PosInf"
| "jmul NegInf NegInf = PosInf"
| "jmul PosInf NegInf = NegInf"
| "jmul NegInf PosInf = NegInf"

fun jdiv :: "jsnum \<Rightarrow> jsnum \<Rightarrow> jsnum" where
  "jdiv NaN _ = NaN"
| "jdiv _ NaN = NaN"
| "jdiv (Num x) (Num y) =
     (if y = 0 then (if x = 0 then NaN else if 0 < x then PosInf else NegInf)
      else Num (x / y))"
| "jdiv (Num x) _ = Num 0"
| "jdiv i (Num y) = (if 0 \<le> y then i else jneg i)"
| "jdiv _ _ = NaN"

text \<open>Strict equality \<open>===\<close> on numbers: NaN equals nothing.\<close>

fun strict_eq :: "jsnum \<Rightarrow> jsnum \<Rightarrow> bool" where
  "strict_eq NaN _ = False"
| "strict_eq _ NaN = False"
| "strict_eq a b = (a = b)"

fun isNaN :: "jsnum \<Rightarrow> bool" where
  "isNaN NaN = True"
| "isNaN _ = False"

subsection \<open>The Math object\<close>

fun Math_sqrt :: "jsnum \<Rightarrow> jsnum" where
  "Math_sqrt (Num x) = (if x < 0 then NaN else Num (sqrt x))"
| "Math_sqrt PosInf = PosInf"
| "Math_sqrt _ = NaN"

fun Math_log :: "jsnum \<Rightarrow> jsnum" where
  "Math_log (Num x) = (if x < 0 then NaN else if x = 0 then NegInf else Num (ln x))"
| "Math_log PosInf = PosInf"
| "Math_log _ = NaN"

fun Math_exp :: "jsnum \<Rightarrow> jsnum" where
  "Math_exp (Num x) = Num (exp x)"
| "Math_exp PosInf = PosInf"
| "Math_exp NegInf = Num 0"
| "Math_exp NaN = NaN"

fun Math_cos :: "jsnum \<Rightarrow> jsnum" where
  "Math_cos (Num x) = Num (cos x)"
| "Math_cos _ = NaN"

fun Math_sin :: "jsnum \<Rightarrow> jsnum" where
  "Math_sin (Num x) = Num (sin x)"
| "Math_sin _ = NaN"

fun Math_cosh :: "jsnum \<Rightarrow> jsnum" where
  "Math_cosh (Num x) = Num (cosh x)"
| "Math_cosh NaN = NaN"
| "Math_cosh _ = PosInf"

fun Math_sinh :: "jsnum \<Rightarrow> jsnum" where
  "Math_sinh (Num x) = Num (sinh x)"
| "Math_sinh i = i"

text \<open>\<open>Math.atan2(y, x)\<close>, the angle of the point \<open>(x, y)\<close> in \<open>(-\<pi>, \<pi>]\<close>.\<close>

fun Math_atan2 :: "jsnum \<Rightarrow> jsnum \<Rightarrow> jsnum" where
  "Math_atan2 NaN _ = NaN"
| "Math_atan2 _ NaN = NaN"
| "Math_atan2 PosInf PosInf = Num (pi / 4)"
| "Math_atan2 PosInf NegInf = Num (3 * pi / 4)"
| "Math_atan2 PosInf (Num x) = Num (pi / 2)"
| "Math_atan2 NegInf PosInf = Num (- pi / 4)"
| "Math_atan2 NegInf NegInf = Num (- 3 * pi / 4)"
| "Math_atan2 NegInf (Num x) = Num (- pi / 2)"
| "Math_atan2 (Num y) PosInf = Num 0"
| "Math_atan2 (Num y) NegInf = Num (if 0 \<le> y then pi else - pi)"
| "Math_atan2 (Num y) (Num x) =
     (if 0 < x then Num (arctan (y / x))
      else if x < 0 then (if 0 \<le> y then Num (arctan (y / x) + pi) else Num (arctan (y / x) - pi))
      else if 0 < y then Num (pi / 2)
      else if y < 0 then Num (- pi / 2)
      else Num 0)"

text \<open>\<open>Math.pow(base, exponent)\<close>, in the order of the cases of the language standard.\<close>

definition odd_integer :: "real \<Rightarrow> bool" where
  "odd_integer y = (y \<in> \<int> \<and> odd \<lfloor>y\<rfloor>)"

fun Math_pow :: "jsnum \<Rightarrow> jsnum \<Rightarrow> jsnum" where
  "Math_pow b NaN = NaN"
| "Math_pow b (Num y) =
     (if y = 0 then Num 1
      else case b of
        NaN \<Rightarrow> NaN
      | PosInf \<Rightarrow> (if 0 < y then PosInf else Num 0)
      | NegInf \<Rightarrow> (if 0 < y then (if odd_integer y then NegInf else PosInf) else Num 0)
      | Num x \<Rightarrow>
          (if x = 0 then (if 0 < y then Num 0 else PosInf)
           else if 0 < x then Num (x powr y)
           else if y \<notin> \<int> then NaN
           else if odd_integer y then Num (- (\<bar>x\<bar> powr y))
           else Num (\<bar>x\<bar> powr y)))"
| "Math_pow b PosInf =
     (case b of
        NaN \<Rightarrow> NaN
      | PosInf \<Rightarrow> PosInf
      | NegInf \<Rightarrow> PosInf
      | Num x \<Rightarrow>
          (if x = 0 then Num 0
           else if 1 < \<bar>x\<bar> then PosInf else if \<bar>x\<bar> = 1 then NaN else Num 0))"
| "Math_pow b NegInf =
     (case b of
        NaN \<Rightarrow> NaN
      | PosInf \<Rightarrow> Num 0
      | NegInf \<Rightarrow> Num 0
      | Num x \<Rightarrow>
          (if x = 0 then PosInf
           else if 1 < \<bar>x\<bar> then Num 0 else if \<bar>x\<bar> = 1 then NaN else PosInf))"

section \<open>Complex arithmetic (class Complex)\<close>

record Complex =
  re :: jsnum
  im :: jsnum

definition Complex_new :: "jsnum \<Rightarrow> jsnum \<Rightarrow> Complex" where
  "Complex_new r i = \<lparr>re = r, im = i\<rparr>"

definition mag :: "Complex \<Rightarrow> jsnum" where
  "mag z = Math_sqrt (jadd (jmul (re z) (re z)) (jmul (im z) (im z)))"

definition mag2 :: "Complex \<Rightarrow> jsnum" where
  "mag2 z = jadd (jmul (re z) (re z)) (jmul (im z) (im z))"

definition arg :: "Complex \<Rightarrow> jsnum" where
  "arg z = Math_atan2 (im z) (re z)"

definition Complex_add :: "Complex \<Rightarrow> Complex \<Rightarrow> Complex" where
  "Complex_add a b = Complex_new (jadd (re a) (re b)) (jadd (im a) (im b))"

definition Complex_sub :: "Complex \<Rightarrow> Complex \<Rightarrow> Complex" where
  "Complex_sub a b = Complex_new (jsub (re a) (re b)) (jsub (im a) (im b))"

definition Complex_mul :: "Complex \<Rightarrow> Complex \<Rightarrow> Complex" where
  "Complex_mul a b =
     Complex_new (jsub (jmul (re a) (re b)) (jmul (im a) (im b)))
                 (jadd (jmul (re a) (im b)) (jmul (im a) (re b)))"

definition Complex_inv :: "Complex \<Rightarrow> Complex" where
  "Complex_inv z =
     (let d = jadd (jmul (re z) (re z)) (jmul (im z) (im z))
      in if strict_eq d (Num 0) then Complex_new PosInf PosInf
         else Complex_new (jdiv (re z) d) (jdiv (jneg (im z)) d))"

definition Complex_div :: "Complex \<Rightarrow> Complex \<Rightarrow> Complex" where
  "Complex_div a b = Complex_mul a (Complex_inv b)"

definition Complex_pow :: "Complex \<Rightarrow> Complex \<Rightarrow> Complex" where
  "Complex_pow z p =
     (if strict_eq (re z) (Num 0) \<and> strict_eq (im z) (Num 0) then Complex_new (Num 0) (Num 0)
      else
        let r = mag z;
            theta = arg z;
            log_r = Math_log r;
            newMag = jmul (Math_pow r (re p)) (Math_exp (jmul (jneg (im p)) theta));
            newAngle = jadd (jmul (re p) theta) (jmul (im p) log_r)
        in Complex_new (jmul newMag (Math_cos newAngle)) (jmul newMag (Math_sin newAngle)))"

definition Complex_exp :: "Complex \<Rightarrow> Complex" where
  "Complex_exp z =
     (let e_re = Math_exp (re z)
      in Complex_new (jmul e_re (Math_cos (im z))) (jmul e_re (Math_sin (im z))))"

definition Complex_log :: "Complex \<Rightarrow> Complex" where
  "Complex_log z = Complex_new (Math_log (mag z)) (arg z)"

definition Complex_sqrt :: "Complex \<Rightarrow> Complex" where
  "Complex_sqrt z = Complex_pow z (Complex_new (Num (1 / 2)) (Num 0))"

definition Complex_sin :: "Complex \<Rightarrow> Complex" where
  "Complex_sin z =
     Complex_new (jmul (Math_sin (re z)) (Math_cosh (im z)))
                 (jmul (Math_cos (re z)) (Math_sinh (im z)))"

definition Complex_cos :: "Complex \<Rightarrow> Complex" where
  "Complex_cos z =
     Complex_new (jmul (Math_cos (re z)) (Math_cosh (im z)))
                 (jmul (jneg (Math_sin (re z))) (Math_sinh (im z)))"

definition Complex_sinh :: "Complex \<Rightarrow> Complex" where
  "Complex_sinh z =
     Complex_new (jmul (Math_sinh (re z)) (Math_cos (im z)))
                 (jmul (Math_cosh (re z)) (Math_sin (im z)))"

definition Complex_cosh :: "Complex \<Rightarrow> Complex" where
  "Complex_cosh z =
     Complex_new (jmul (Math_cosh (re z)) (Math_cos (im z)))
                 (jmul (Math_sinh (re z)) (Math_sin (im z)))"

section \<open>Errors\<close>

text \<open>
  Every \<open>throw new Error(...)\<close> of the source is a constructor, with the values the
  message interpolates. \<open>TypeError\<close> is the error the language itself raises when a
  property of \<open>undefined\<close> is read.
\<close>

datatype error =
    FunctionEmpty                         \<comment> \<open>"Function cannot be empty."\<close>
  | InvalidCharacters                     \<comment> \<open>"Invalid characters in function."\<close>
  | UnexpectedToken string string         \<comment> \<open>"Unexpected token 'a' after 'b'."\<close>
  | OperatorAfterOperator string string   \<comment> \<open>"Operator 'a' cannot follow operator 'b'."\<close>
  | UnknownIdentifier string
  | MismatchedParentheses
  | InvalidExpressionStructure
  | InvalidUnaryMinus
  | NotEnoughArguments string
  | MissingOperand string
  | TypeError

section \<open>Tokenizer\<close>

text \<open>
  Strings are lists of \<open>char\<close>, so the code units modelled are those below 256. On
  these, the class \<open>\s\<close> holds tab, line feed, vertical tab, form feed, carriage
  return, space and the no-break space.
\<close>

datatype TokenType = Number | Identifier | Operator | LeftParen | RightParen | Comma

record Token =
  type :: TokenType
  "value" :: string

definition is_space :: "char \<Rightarrow> bool" where
  "is_space c = (let n = (of_char c :: nat) in (9 \<le> n \<and> n \<le> 13) \<or> n = 32 \<or> n = 160)"

definition is_digit :: "char \<Rightarrow> bool" where
  "is_digit c = (let n = (of_char c :: nat) in 48 \<le> n \<and> n \<le> 57)"

definition is_ident_start :: "char \<Rightarrow> bool" where
  "is_ident_start c =
     (let n = (of_char c :: nat) in (97 \<le> n \<and> n \<le> 122) \<or> (65 \<le> n \<and> n \<le> 90) \<or> n = 95)"

definition is_ident_char :: "char \<Rightarrow> bool" where
  "is_ident_char c = (is_ident_start c \<or> is_digit c)"

definition is_operator_char :: "char \<Rightarrow> bool" where
  "is_operator_char c = (c \<in> set ''+-*/^'')"

text \<open>
  \<open>str.match(TOKEN_REGEX)\<close> with the global flag: all the matches, left to right. At
  each position the alternatives are tried in order (identifier, number, operator or
  parenthesis, comma), each repetition is greedy, and a position where none matches is
  passed over: the search for the next match resumes one character later.
\<close>

function match_all :: "string \<Rightarrow> string list" where
  "match_all [] = []"
| "match_all (c # cs) =
     (if is_ident_start c then
        (c # takeWhile is_ident_char cs) # match_all (dropWhile is_ident_char cs)
      else if is_digit c then
        (let ds = c # takeWhile is_digit cs; r1 = dropWhile is_digit cs
         in if r1 \<noteq> [] \<and> hd r1 = CHR ''.''
            then (ds @ ''.'' @ takeWhile is_digit (tl r1)) # match_all (dropWhile is_digit (tl r1))
            else ds # match_all r1)
      else if is_operator_char c \<or> c = CHR ''('' \<or> c = CHR '')'' then [c] # match_all cs
      else if c = CHR '','' then [c] # match_all cs
      else match_all cs)"
  by pat_completeness auto
termination
proof (relation "measure length")
  fix c :: char and cs x xa
  assume "xa = dropWhile is_digit cs"
  then have "length (dropWhile is_digit (tl xa)) \<le> length cs"
    by (metis diff_le_self le_trans length_dropWhile_le length_tl)
  then show "(dropWhile is_digit (tl xa), c # cs) \<in> measure length"
    by simp
qed (auto simp: length_dropWhile_le less_Suc_eq_le)

text \<open>\<open>match\<close> gives \<open>null\<close>, here \<open>None\<close>, when there is no match at all.\<close>

definition String_match :: "string \<Rightarrow> string list option" where
  "String_match s = (case match_all s of [] \<Rightarrow> None | ms \<Rightarrow> Some ms)"

subsection \<open>parseFloat\<close>

definition digits_value :: "string \<Rightarrow> nat" where
  "digits_value ds = foldl (\<lambda>a c. 10 * a + (of_char c - 48)) 0 ds"

text \<open>
  The exponent part \<open>e\<close>, sign, digits at the head of a string, as a power of ten
  to scale by; an incomplete exponent part is not consumed.
\<close>

definition exponent_scale :: "string \<Rightarrow> real" where
  "exponent_scale s =
     (case s of
        [] \<Rightarrow> 1
      | c # r \<Rightarrow>
          if c = CHR ''e'' \<or> c = CHR ''E'' then
            (case r of
               [] \<Rightarrow> 1
             | d # r' \<Rightarrow>
                 if d = CHR ''-'' then
                   (if takeWhile is_digit r' = [] then 1
                    else 1 / 10 ^ digits_value (takeWhile is_digit r'))
                 else if d = CHR ''+'' then 10 ^ digits_value (takeWhile is_digit r')
                 else 10 ^ digits_value (takeWhile is_digit r))
          else 1)"

text \<open>An unsigned decimal literal at the head of a string; \<open>NaN\<close> when there is none.\<close>

definition unsigned_decimal :: "string \<Rightarrow> jsnum" where
  "unsigned_decimal s =
     (if take 8 s = ''Infinity'' then PosInf
      else
        let ip = takeWhile is_digit s; r1 = dropWhile is_digit s
        in if r1 \<noteq> [] \<and> hd r1 = CHR ''.'' \<and> (ip \<noteq> [] \<or> takeWhile is_digit (tl r1) \<noteq> [])
           then
             (let fp = takeWhile is_digit (tl r1); r2 = dropWhile is_digit (tl r1)
              in Num ((real (digits_value ip) + real (digits_value fp) / 10 ^ length fp)
                      * exponent_scale r2))
           else if ip \<noteq> [] then Num (real (digits_value ip) * exponent_scale r1)
           else NaN)"

definition parseFloat :: "string \<Rightarrow> jsnum" where
  "parseFloat s =
     (let t = dropWhile is_space s
      in if t \<noteq> [] \<and> hd t = CHR ''-'' then jneg (unsigned_decimal (tl t))
         else if t \<noteq> [] \<and> hd t = CHR ''+'' then unsigned_decimal (tl t)
         else unsigned_decimal t)"

subsection \<open>tokenize\<close>

definition classify :: "string \<Rightarrow> Token" where
  "classify v =
     (if \<not> isNaN (parseFloat v) then \<lparr>type = Number, value = v\<rparr>
      else if list_ex is_operator_char v then \<lparr>type = Operator, value = v\<rparr>
      else if v = ''('' then \<lparr>type = LeftParen, value = v\<rparr>
      else if v = '')'' then \<lparr>type = RightParen, value = v\<rparr>
      else if v = '','' then \<lparr>type = Comma, value = v\<rparr>
      else \<lparr>type = Identifier, value = v\<rparr>)"

definition tokenize :: "string \<Rightarrow> error + Token list" where
  "tokenize input =
     (if input = [] then Inl FunctionEmpty
      else case String_match (filter (\<lambda>c. \<not> is_space c) input) of
             None \<Rightarrow> Inl InvalidCharacters
           | Some matches \<Rightarrow> Inr (map classify matches))"

section \<open>Symbol tables\<close>

text \<open>
  The three tables are object literals, read with \<open>TABLE[key]\<close>. Such a read finds the
  table's own entry, or else a property that every object inherits from
  \<open>Object.prototype\<close>, or else \<open>undefined\<close>. An inherited property is a function (or,
  for \<open>__proto__\<close>, an object): it is truthy and has none of the fields of a table entry,
  so each of \<open>arity\<close>, \<open>precedence\<close>, \<open>associativity\<close>, \<open>glsl\<close>, \<open>js\<close>, \<open>re\<close>
  and \<open>im\<close> read from it is \<open>undefined\<close>.
\<close>

datatype 'a property = Own 'a | Inherited | Undefined

definition Object_prototype :: "string list" where
  "Object_prototype =
     [''constructor'', ''hasOwnProperty'', ''isPrototypeOf'', ''propertyIsEnumerable'',
      ''toLocaleString'', ''toString'', ''valueOf'', ''__proto__'',
      ''__defineGetter__'', ''__defineSetter__'', ''__lookupGetter__'', ''__lookupSetter__'']"

definition get_property :: "(string \<times> 'a) list \<Rightarrow> string \<Rightarrow> 'a property" where
  "get_property table key =
     (case map_of table key of
        Some v \<Rightarrow> Own v
      | None \<Rightarrow> if key \<in> set Object_prototype then Inherited else Undefined)"

fun truthy :: "'a property \<Rightarrow> bool" where
  "truthy Undefined = False"
| "truthy _ = True"

datatype Associativity = LeftAssoc | RightAssoc

text \<open>
  The field \<open>js\<close> holds a static method of the class \<open>Complex\<close>; the model keeps the
  method's name, which is all the generator reads of it.
\<close>

record BackendInfo =
  glsl :: string
  js :: string

record OperatorInfo = BackendInfo +
  precedence :: nat
  associativity :: Associativity

record FunctionInfo = BackendInfo +
  arity :: nat

record ConstantInfo =
  const_value :: Complex
  const_glsl :: string

definition OPERATORS :: "(string \<times> OperatorInfo) list" where
  "OPERATORS =
     [(''+'', \<lparr>glsl = ''c_add'', js = ''add'', precedence = 2, associativity = LeftAssoc\<rparr>),
      (''-'', \<lparr>glsl = ''c_sub'', js = ''sub'', precedence = 2, associativity = LeftAssoc\<rparr>),
      (''*'', \<lparr>glsl = ''c_mul'', js = ''mul'', precedence = 3, associativity = LeftAssoc\<rparr>),
      (''/'', \<lparr>glsl = ''c_div'', js = ''div'', precedence = 3, associativity = LeftAssoc\<rparr>),
      (''^'', \<lparr>glsl = ''c_pow'', js = ''pow'', precedence = 4, associativity = RightAssoc\<rparr>)]"

definition FUNCTIONS :: "(string \<times> FunctionInfo) list" where
  "FUNCTIONS =
     [(''sin'', \<lparr>glsl = ''c_sin'', js = ''sin'', arity = 1\<rparr>),
      (''cos'', \<lparr>glsl = ''c_cos'', js = ''cos'', arity = 1\<rparr>),
      (''sinh'', \<lparr>glsl = ''c_sinh'', js = ''sinh'', arity = 1\<rparr>),
      (''cosh'', \<lparr>glsl = ''c_cosh'', js = ''cosh'', arity = 1\<rparr>),
      (''exp'', \<lparr>glsl = ''c_exp'', js = ''exp'', arity = 1\<rparr>),
      (''log'', \<lparr>glsl = ''c_log'', js = ''log'', arity = 1\<rparr>),
      (''sqrt'', \<lparr>glsl = ''c_sqrt'', js = ''sqrt'', arity = 1\<rparr>),
      (''pow'', \<lparr>glsl = ''c_pow'', js = ''pow'', arity = 2\<rparr>)]"

definition CONSTANTS :: "(string \<times> ConstantInfo) list" where
  "CONSTANTS =
     [(''pi'', \<lparr>const_value = Complex_new (Num pi) (Num 0),
               const_glsl = ''vec2(3.141592653589793, 0.0)''\<rparr>),
      (''e'', \<lparr>const_value = Complex_new (Num (exp 1)) (Num 0),
              const_glsl = ''vec2(2.718281828459045, 0.0)''\<rparr>),
      (''i'', \<lparr>const_value = Complex_new (Num 0) (Num 1),
              const_glsl = ''vec2(0.0, 1.0)''\<rparr>)]"

section \<open>Syntax trees\<close>

datatype ASTNode =
    Constant jsnum
  | Variable string
  | BinaryOperation string ASTNode ASTNode
  | FunctionCall string "ASTNode list"
  | UnaryMinus ASTNode

section \<open>Parser\<close>

text \<open>An entry of the operator stack: a token, or the marker \<open>{ type: 'UnaryMinus' }\<close>.\<close>

datatype StackItem = Tok Token | UnaryMinusMarker

fun is_LeftParen :: "StackItem \<Rightarrow> bool" where
  "is_LeftParen (Tok t) = (type t = LeftParen)"
| "is_LeftParen UnaryMinusMarker = False"

fun is_Identifier :: "StackItem \<Rightarrow> bool" where
  "is_Identifier (Tok t) = (type t = Identifier)"
| "is_Identifier UnaryMinusMarker = False"

text \<open>
  Arrays are lists in the order of the source: \<open>push\<close> appends, \<open>pop\<close> takes the last
  element. \<open>applyOperator\<close> returns the output queue it leaves behind. For a name that
  \<open>FUNCTIONS\<close> only inherits, \<open>arity\<close> is \<open>undefined\<close>: the length test compares with
  NaN and is false, and \<open>splice(NaN)\<close> removes the whole queue from index 0.
\<close>

fun applyOperator :: "ASTNode list \<Rightarrow> StackItem \<Rightarrow> error + ASTNode list" where
  "applyOperator outputQueue UnaryMinusMarker =
     (if length outputQueue < 1 then Inl InvalidUnaryMinus
      else Inr (butlast outputQueue @ [UnaryMinus (last outputQueue)]))"
| "applyOperator outputQueue (Tok op) =
     (if type op = Identifier then
        (case get_property FUNCTIONS (value op) of
           Undefined \<Rightarrow> Inl TypeError
         | Inherited \<Rightarrow> Inr [FunctionCall (value op) outputQueue]
         | Own funcInfo \<Rightarrow>
             if length outputQueue < arity funcInfo then Inl (NotEnoughArguments (value op))
             else
               (let start = length outputQueue - arity funcInfo
                in Inr (take start outputQueue @ [FunctionCall (value op) (drop start outputQueue)])))
      else if length outputQueue < 2 then Inl (MissingOperand (value op))
      else
        (let right = last outputQueue; left = last (butlast outputQueue)
         in Inr (butlast (butlast outputQueue) @ [BinaryOperation (value op) left right])))"

text \<open>
  The comparison that decides whether the operator on top of the stack is reduced before
  \<open>op1\<close> is pushed. Reading a field of \<open>OPERATORS[x]\<close> raises when \<open>x\<close> is no
  property at all; the right operand of \<open>&&\<close> is read only when the left one holds.
\<close>

definition binds_before :: "string \<Rightarrow> string \<Rightarrow> error + bool" where
  "binds_before op1 op2 =
     (case get_property OPERATORS op1 of
        Undefined \<Rightarrow> Inl TypeError
      | Inherited \<Rightarrow> Inr False
      | Own i1 \<Rightarrow>
          (case get_property OPERATORS op2 of
             Undefined \<Rightarrow> Inl TypeError
           | Inherited \<Rightarrow> Inr False
           | Own i2 \<Rightarrow>
               Inr ((associativity i1 = LeftAssoc \<and> precedence i1 \<le> precedence i2) \<or>
                    (associativity i1 = RightAssoc \<and> precedence i1 < precedence i2))))"

text \<open>The \<open>while\<close> loop of the case \<open>Operator\<close>; it returns both arrays.\<close>

function pop_operators ::
  "string \<Rightarrow> ASTNode list \<Rightarrow> StackItem list \<Rightarrow> error + (ASTNode list \<times> StackItem list)" where
  "pop_operators op1 outputQueue operatorStack =
     (if operatorStack = [] then Inr (outputQueue, operatorStack)
      else
        let topOp = last operatorStack
        in if is_LeftParen topOp then Inr (outputQueue, operatorStack)
           else if topOp = UnaryMinusMarker then
             (case applyOperator outputQueue topOp of
                Inl e \<Rightarrow> Inl e
              | Inr q \<Rightarrow> pop_operators op1 q (butlast operatorStack))
           else if is_Identifier topOp then Inr (outputQueue, operatorStack)
           else
             (case binds_before op1 (case topOp of Tok t \<Rightarrow> value t | UnaryMinusMarker \<Rightarrow> []) of
                Inl e \<Rightarrow> Inl e
              | Inr True \<Rightarrow>
                  (case applyOperator outputQueue topOp of
                     Inl e \<Rightarrow> Inl e
                   | Inr q \<Rightarrow> pop_operators op1 q (butlast operatorStack))
              | Inr False \<Rightarrow> Inr (outputQueue, operatorStack)))"
  by pat_completeness auto
termination
  by (relation "measure (\<lambda>(op1, q, stk). length stk)") auto

text \<open>The \<open>while\<close> loop of the case \<open>RightParen\<close>.\<close>

function pop_to_paren ::
  "ASTNode list \<Rightarrow> StackItem list \<Rightarrow> error + (ASTNode list \<times> StackItem list)" where
  "pop_to_paren outputQueue operatorStack =
     (if operatorStack \<noteq> [] \<and> \<not> is_LeftParen (last operatorStack) then
        (case applyOperator outputQueue (last operatorStack) of
           Inl e \<Rightarrow> Inl e
         | Inr q \<Rightarrow> pop_to_paren q (butlast operatorStack))
      else Inr (outputQueue, operatorStack))"
  by pat_completeness auto
termination
  by (relation "measure (\<lambda>(q, stk). length stk)") auto

text \<open>The final \<open>while\<close> loop, which empties the operator stack.\<close>

function drain :: "ASTNode list \<Rightarrow> StackItem list \<Rightarrow> error + ASTNode list" where
  "drain outputQueue operatorStack =
     (if operatorStack = [] then Inr outputQueue
      else
        let op = last operatorStack
        in if is_LeftParen op then Inl MismatchedParentheses
           else
             (case applyOperator outputQueue op of
                Inl e \<Rightarrow> Inl e
              | Inr q \<Rightarrow> drain q (butlast operatorStack)))"
  by pat_completeness auto
termination
  by (relation "measure (\<lambda>(q, stk). length stk)") auto

record parser_state =
  outputQueue :: "ASTNode list"
  operatorStack :: "StackItem list"
  lastToken :: "Token option"

definition last_type :: "parser_state \<Rightarrow> TokenType option" where
  "last_type st = map_option type (lastToken st)"

definition last_value :: "parser_state \<Rightarrow> string" where
  "last_value st = (case lastToken st of None \<Rightarrow> [] | Some t \<Rightarrow> value t)"

text \<open>One round of the \<open>for\<close> loop: the two checks, the \<open>switch\<close>, and \<open>lastToken = token\<close>.\<close>

definition step :: "Token \<Rightarrow> parser_state \<Rightarrow> error + parser_state" where
  "step token st =
     (if (type token = Number \<or> type token = Identifier) \<and>
         (last_type st = Some Number \<or> last_type st = Some Identifier)
      then Inl (UnexpectedToken (value token) (last_value st))
      else if type token = Operator \<and> last_type st = Some Operator
      then Inl (OperatorAfterOperator (value token) (last_value st))
      else
        (case type token of
           Number \<Rightarrow>
             Inr (st\<lparr>outputQueue := outputQueue st @ [Constant (parseFloat (value token))],
                     lastToken := Some token\<rparr>)
         | Identifier \<Rightarrow>
             if truthy (get_property FUNCTIONS (value token)) then
               Inr (st\<lparr>operatorStack := operatorStack st @ [Tok token], lastToken := Some token\<rparr>)
             else if truthy (get_property CONSTANTS (value token)) \<or> value token = ''z'' then
               Inr (st\<lparr>outputQueue := outputQueue st @ [Variable (value token)],
                       lastToken := Some token\<rparr>)
             else Inl (UnknownIdentifier (value token))
         | Operator \<Rightarrow>
             if value token = ''-'' \<and>
                (lastToken st = None \<or> last_type st = Some Operator \<or> last_type st = Some LeftParen)
             then
               Inr (st\<lparr>operatorStack := operatorStack st @ [UnaryMinusMarker],
                       lastToken := Some token\<rparr>)
             else
               (case pop_operators (value token) (outputQueue st) (operatorStack st) of
                  Inl e \<Rightarrow> Inl e
                | Inr (q, stk) \<Rightarrow>
                    Inr (st\<lparr>outputQueue := q, operatorStack := stk @ [Tok token],
                            lastToken := Some token\<rparr>))
         | LeftParen \<Rightarrow>
             Inr (st\<lparr>operatorStack := operatorStack st @ [Tok token], lastToken := Some token\<rparr>)
         | RightParen \<Rightarrow>
             (case pop_to_paren (outputQueue st) (operatorStack st) of
                Inl e \<Rightarrow> Inl e
              | Inr (q, stk) \<Rightarrow>
                  if stk = [] then Inl MismatchedParentheses
                  else
                    (let stk1 = butlast stk
                     in if stk1 \<noteq> [] \<and> is_Identifier (last stk1) then
                          (case applyOperator q (last stk1) of
                             Inl e \<Rightarrow> Inl e
                           | Inr q1 \<Rightarrow>
                               Inr (st\<lparr>outputQueue := q1, operatorStack := butlast stk1,
                                       lastToken := Some token\<rparr>))
                        else
                          Inr (st\<lparr>outputQueue := q, operatorStack := stk1,
                                  lastToken := Some token\<rparr>)))
         | Comma \<Rightarrow> Inr (st\<lparr>lastToken := Some token\<rparr>)))"

fun run :: "Token list \<Rightarrow> parser_state \<Rightarrow> error + parser_state" where
  "run [] st = Inr st"
| "run (token # tokens) st =
     (case step token st of Inl e \<Rightarrow> Inl e | Inr st' \<Rightarrow> run tokens st')"

definition parseTokens :: "Token list \<Rightarrow> error + ASTNode" where
  "parseTokens tokens =
     (case run tokens \<lparr>outputQueue = [], operatorStack = [], lastToken = None\<rparr> of
        Inl e \<Rightarrow> Inl e
      | Inr st \<Rightarrow>
          (case drain (outputQueue st) (operatorStack st) of
             Inl e \<Rightarrow> Inl e
           | Inr q \<Rightarrow>
               if length q \<noteq> 1 then Inl InvalidExpressionStructure else Inr (hd q)))"

section \<open>Code generators\<close>

text \<open>The first error of a list of results, as the first \<open>throw\<close> ends a \<open>map\<close>.\<close>

fun collect :: "(error + 'a) list \<Rightarrow> error + 'a list" where
  "collect [] = Inr []"
| "collect (Inl e # rs) = Inl e"
| "collect (Inr x # rs) = (case collect rs of Inl e \<Rightarrow> Inl e | Inr xs \<Rightarrow> Inr (x # xs))"

fun join :: "string \<Rightarrow> string list \<Rightarrow> string" where
  "join sep [] = []"
| "join sep [x] = x"
| "join sep (x # y # ys) = x @ sep @ join sep (y # ys)"

subsection \<open>GLSL\<close>

text \<open>
  A field read as text is the field of a table entry, or \<open>undefined\<close> for an inherited
  property, which has no such field; for no property at all the read raises. The value
  \<open>undefined\<close> is \<open>None\<close>: a template literal prints it as the word, and \<open>join\<close>
  prints it as the empty string.
\<close>

fun glsl_field :: "('a BackendInfo_scheme) property \<Rightarrow> error + string option" where
  "glsl_field (Own info) = Inr (Some (glsl info))"
| "glsl_field Inherited = Inr None"
| "glsl_field Undefined = Inl TypeError"

fun template :: "string option \<Rightarrow> string" where
  "template None = ''undefined''"
| "template (Some s) = s"

fun join_item :: "string option \<Rightarrow> string" where
  "join_item None = []"
| "join_item (Some s) = s"

text \<open>
  \<open>toPrecision\<close> stands for \<open>Number.prototype.toPrecision(15)\<close>, the decimal rendering
  of a constant, which is a parameter of the model.
\<close>

fun generateGlslNode :: "(jsnum \<Rightarrow> string) \<Rightarrow> ASTNode \<Rightarrow> error + string option" where
  "generateGlslNode toPrecision (Constant v) = Inr (Some (''vec2('' @ toPrecision v @ '', 0.0)''))"
| "generateGlslNode toPrecision (Variable name) =
     (case get_property CONSTANTS name of
        Own c \<Rightarrow> Inr (Some (const_glsl c))
      | Inherited \<Rightarrow> Inr None
      | Undefined \<Rightarrow> Inr (Some ''z''))"
| "generateGlslNode toPrecision (BinaryOperation operator l r) =
     (case generateGlslNode toPrecision l of
        Inl e \<Rightarrow> Inl e
      | Inr left \<Rightarrow>
          (case generateGlslNode toPrecision r of
             Inl e \<Rightarrow> Inl e
           | Inr right \<Rightarrow>
               (case glsl_field (get_property OPERATORS operator) of
                  Inl e \<Rightarrow> Inl e
                | Inr f \<Rightarrow>
                    Inr (Some (template f @ ''('' @ template left @ '', '' @ template right @ '')'')))))"
| "generateGlslNode toPrecision (FunctionCall functionName args) =
     (case collect (map (generateGlslNode toPrecision) args) of
        Inl e \<Rightarrow> Inl e
      | Inr as \<Rightarrow>
          (case glsl_field (get_property FUNCTIONS functionName) of
             Inl e \<Rightarrow> Inl e
           | Inr f \<Rightarrow> Inr (Some (template f @ ''('' @ join '', '' (map join_item as) @ '')''))))"
| "generateGlslNode toPrecision (UnaryMinus operand) =
     (case generateGlslNode toPrecision operand of
        Inl e \<Rightarrow> Inl e
      | Inr x \<Rightarrow> Inr (Some (''c_mul(vec2(-1.0, 0.0), '' @ template x @ '')'')))"

definition generateGlsl :: "(jsnum \<Rightarrow> string) \<Rightarrow> ASTNode \<Rightarrow> error + string" where
  "generateGlsl toPrecision ast =
     (case generateGlslNode toPrecision ast of
        Inl e \<Rightarrow> Inl e
      | Inr body \<Rightarrow>
          Inr (''vec2 F_Z(vec2 z) {'' @ [CHR 0x0A] @ ''    return '' @ template body @ '';'' @
               [CHR 0x0A] @ ''}''))"

subsection \<open>JavaScript\<close>

text \<open>
  The generated text is a nest of three forms, kept here as its syntax tree:
  \<open>new Complex(a, b)\<close> with two number literals, the parameter \<open>z\<close>, and
  \<open>Complex.name(args)\<close>.
\<close>

datatype JsExpr = NewComplex jsnum jsnum | ParamZ | StaticCall string "JsExpr list"

text \<open>
  \<open>TABLE[key].js.name\<close>: only a table entry has a field \<open>js\<close>, so the read raises for
  an inherited property as for none.
\<close>

fun js_name :: "('a BackendInfo_scheme) property \<Rightarrow> error + string" where
  "js_name (Own info) = Inr (js info)"
| "js_name _ = Inl TypeError"

fun generateJsNode :: "ASTNode \<Rightarrow> error + JsExpr" where
  "generateJsNode (Constant v) = Inr (NewComplex v (Num 0))"
| "generateJsNode (Variable name) =
     (case get_property CONSTANTS name of
        Own info \<Rightarrow> (let c = const_value info in Inr (NewComplex (re c) (im c)))
      | Inherited \<Rightarrow> Inl TypeError
      | Undefined \<Rightarrow> Inr ParamZ)"
| "generateJsNode (BinaryOperation operator l r) =
     (case generateJsNode l of
        Inl e \<Rightarrow> Inl e
      | Inr left \<Rightarrow>
          (case generateJsNode r of
             Inl e \<Rightarrow> Inl e
           | Inr right \<Rightarrow>
               (case js_name (get_property OPERATORS operator) of
                  Inl e \<Rightarrow> Inl e
                | Inr opName \<Rightarrow> Inr (StaticCall opName [left, right]))))"
| "generateJsNode (FunctionCall functionName args) =
     (case collect (map generateJsNode args) of
        Inl e \<Rightarrow> Inl e
      | Inr as \<Rightarrow>
          (case js_name (get_property FUNCTIONS functionName) of
             Inl e \<Rightarrow> Inl e
           | Inr funcName \<Rightarrow> Inr (StaticCall funcName as)))"
| "generateJsNode (UnaryMinus operand) =
     (case generateJsNode operand of
        Inl e \<Rightarrow> Inl e
      | Inr x \<Rightarrow> Inr (StaticCall ''mul'' [NewComplex (Num (- 1)) (Num 0), x]))"

definition generateJs :: "ASTNode \<Rightarrow> error + JsExpr" where
  "generateJs ast = generateJsNode ast"

subsection \<open>Running the generated JavaScript\<close>

text \<open>
  A call binds the arguments by position: a missing one is \<open>undefined\<close>, whose first
  property read raises, and extra ones are ignored. \<open>Complex.pow\<close> returns for a zero
  base before it reads the exponent.
\<close>

definition unary :: "(Complex \<Rightarrow> Complex) \<Rightarrow> Complex list \<Rightarrow> error + Complex" where
  "unary f vs = (case vs of [] \<Rightarrow> Inl TypeError | a # _ \<Rightarrow> Inr (f a))"

definition binary :: "(Complex \<Rightarrow> Complex \<Rightarrow> Complex) \<Rightarrow> Complex list \<Rightarrow> error + Complex" where
  "binary f vs = (case vs of a # b # _ \<Rightarrow> Inr (f a b) | _ \<Rightarrow> Inl TypeError)"

definition Complex_static :: "string \<Rightarrow> Complex list \<Rightarrow> error + Complex" where
  "Complex_static name vs =
     (if name = ''add'' then binary Complex_add vs
      else if name = ''sub'' then binary Complex_sub vs
      else if name = ''mul'' then binary Complex_mul vs
      else if name = ''inv'' then unary Complex_inv vs
      else if name = ''div'' then binary Complex_div vs
      else if name = ''pow'' then
        (case vs of
           [] \<Rightarrow> Inl TypeError
         | [z] \<Rightarrow>
             if strict_eq (re z) (Num 0) \<and> strict_eq (im z) (Num 0)
             then Inr (Complex_new (Num 0) (Num 0)) else Inl TypeError
         | z # p # _ \<Rightarrow> Inr (Complex_pow z p))
      else if name = ''exp'' then unary Complex_exp vs
      else if name = ''log'' then unary Complex_log vs
      else if name = ''sqrt'' then unary Complex_sqrt vs
      else if name = ''sin'' then unary Complex_sin vs
      else if name = ''cos'' then unary Complex_cos vs
      else if name = ''sinh'' then unary Complex_sinh vs
      else if name = ''cosh'' then unary Complex_cosh vs
      else Inl TypeError)"

text \<open>The function \<open>new Function('z', 'Complex', `return ${jsCode}`)\<close>, applied to \<open>z\<close>.\<close>

fun run_js :: "JsExpr \<Rightarrow> Complex \<Rightarrow> error + Complex" where
  "run_js (NewComplex a b) z = Inr (Complex_new a b)"
| "run_js ParamZ z = Inr z"
| "run_js (StaticCall name args) z =
     (case collect (map (\<lambda>a. run_js a z) args) of
        Inl e \<Rightarrow> Inl e
      | Inr vs \<Rightarrow> Complex_static name vs)"

section \<open>The class Expression\<close>

text \<open>
  The field \<open>jsFunction\<close> holds a function of \<open>z\<close>; the model keeps the expression it
  returns. The initial value \<open>(z) => z\<close> returns its parameter.
\<close>

record Expression =
  ast :: "ASTNode option"
  jsFunction :: JsExpr

text \<open>
  \<open>parse\<close> returns normally or raises, and in both cases leaves the object in the
  state given as second component: each assignment to a field is a record update at the
  place where the source has it.
\<close>

definition Expression_parse :: "string \<Rightarrow> Expression \<Rightarrow> (error + unit) \<times> Expression" where
  "Expression_parse source this =
     (case tokenize source of
        Inl e \<Rightarrow> (Inl e, this)
      | Inr tokens \<Rightarrow>
          (case parseTokens tokens of
             Inl e \<Rightarrow> (Inl e, this)
           | Inr a \<Rightarrow>
               (let this1 = this\<lparr>ast := Some a\<rparr>
                in case generateJs a of
                     Inl e \<Rightarrow> (Inl e, this1)
                   | Inr jsCode \<Rightarrow> (Inr (), this1\<lparr>jsFunction := jsCode\<rparr>))))"

definition Expression_new :: "string option \<Rightarrow> (error + unit) \<times> Expression" where
  "Expression_new source =
     (let this = \<lparr>ast = None, jsFunction = ParamZ\<rparr>
      in case source of
           None \<Rightarrow> Expression_parse ''z'' this
         | Some s \<Rightarrow> if s \<noteq> [] then Expression_parse s this else Expression_parse ''z'' this)"

definition evaluate :: "Expression \<Rightarrow> Complex \<Rightarrow> error + Complex" where
  "evaluate this z = run_js (jsFunction this) z"

definition getGlslCode :: "(jsnum \<Rightarrow> string) \<Rightarrow> Expression \<Rightarrow> error + string" where
  "getGlslCode toPrecision this =
     (case ast this of
        None \<Rightarrow> Inr ''vec2 F_Z(vec2 z) { return z; }''
      | Some a \<Rightarrow> generateGlsl toPrecision a)"

section \<open>The shader library\<close>

text \<open>
  A \<open>vec2\<close> is a pair of numbers. The built-ins \<open>length\<close>, \<open>atan\<close>, \<open>log\<close>,
  \<open>pow\<close>, \<open>exp\<close>, \<open>cos\<close> and \<open>sin\<close> are read as the functions of the same name of
  the host.
\<close>

type_synonym vec2 = "jsnum \<times> jsnum"

definition length_vec2 :: "vec2 \<Rightarrow> jsnum" where
  "length_vec2 v = Math_sqrt (jadd (jmul (fst v) (fst v)) (jmul (snd v) (snd v)))"

definition c_pow :: "vec2 \<Rightarrow> vec2 \<Rightarrow> vec2" where
  "c_pow z p =
     (let r = length_vec2 z
      in if strict_eq r (Num 0) then (Num 0, Num 0)
         else
           let theta = Math_atan2 (snd z) (fst z);
               log_r = Math_log r;
               new_mag = jmul (Math_pow r (fst p)) (Math_exp (jmul (jneg (snd p)) theta));
               new_angle = jadd (jmul (fst p) theta) (jmul (snd p) log_r)
           in (jmul new_mag (Math_cos new_angle), jmul new_mag (Math_sin new_angle)))"

section \<open>Predicates of the statements\<close>

text \<open>
  A tree is \<open>in_tables\<close> when every name in it is an entry of its table: a variable is
  a constant or \<open>z\<close>, an operator is in \<open>OPERATORS\<close>, and a call names an entry of
  \<open>FUNCTIONS\<close> and has as many arguments as the entry's arity.
\<close>

fun in_tables :: "ASTNode \<Rightarrow> bool" where
  "in_tables (Constant v) = True"
| "in_tables (Variable name) = (map_of CONSTANTS name \<noteq> None \<or> name = ''z'')"
| "in_tables (BinaryOperation operator l r) =
     (map_of OPERATORS operator \<noteq> None \<and> in_tables l \<and> in_tables r)"
| "in_tables (FunctionCall functionName args) =
     (case map_of FUNCTIONS functionName of
        None \<Rightarrow> False
      | Some info \<Rightarrow> length args = arity info \<and> list_all in_tables args)"
| "in_tables (UnaryMinus operand) = in_tables operand"

text \<open>
  A token is plain when, as an identifier, it is not the name of a property of
  \<open>Object.prototype\<close> and, as an operator, its text is one of the five operators.
\<close>

definition plain_token :: "Token \<Rightarrow> bool" where
  "plain_token t =
     (if type t = Identifier then value t \<notin> set Object_prototype
      else if type t = Operator then map_of OPERATORS (value t) \<noteq> None
      else True)"

text \<open>The entries that the loop keeps on the operator stack of plain tokens.\<close>

fun stack_ok :: "StackItem \<Rightarrow> bool" where
  "stack_ok UnaryMinusMarker = True"
| "stack_ok (Tok t) =
     (type t = LeftParen \<or>
      (type t = Identifier \<and> map_of FUNCTIONS (value t) \<noteq> None) \<or>
      (type t = Operator \<and> map_of OPERATORS (value t) \<noteq> None))"

definition state_ok :: "parser_state \<Rightarrow> bool" where
  "state_ok st = (list_all in_tables (outputQueue st) \<and> list_all stack_ok (operatorStack st))"

text \<open>The characters at which one of the alternatives of \<open>TOKEN_REGEX\<close> matches.\<close>

definition begins_lexeme :: "char \<Rightarrow> bool" where
  "begins_lexeme c =
     (is_ident_start c \<or> is_digit c \<or> is_operator_char c \<or>
      c = CHR ''('' \<or> c = CHR '')'' \<or> c = CHR '','')"

section \<open>Evaluation lemmas\<close>

lemmas tokenizer_defs = tokenize_def String_match_def is_space_def is_digit_def
  is_ident_start_def is_ident_char_def is_operator_char_def classify_def parseFloat_def
  unsigned_decimal_def exponent_scale_def digits_value_def

lemmas parser_defs = parseTokens_def step_def last_type_def last_value_def get_property_def
  FUNCTIONS_def CONSTANTS_def OPERATORS_def Object_prototype_def binds_before_def

lemmas facade_defs = Expression_new_def Expression_parse_def generateJs_def

lemmas complex_defs = Complex_static_def binary_def unary_def Complex_new_def Complex_add_def
  Complex_sub_def Complex_mul_def Complex_pow_def mag_def arg_def jsub_def

lemma pow_neg2_2:
  "Complex_pow \<lparr>re = Num (- 2), im = Num 0\<rparr> \<lparr>re = Num 2, im = Num 0\<rparr> =
   \<lparr>re = Num 4, im = Num 0\<rparr>"
  by (simp add: complex_defs)

lemma pow_3_2:
  "Complex_pow \<lparr>re = Num 3, im = Num 0\<rparr> \<lparr>re = Num 2, im = Num 0\<rparr> =
   \<lparr>re = Num 9, im = Num 0\<rparr>"
  by (simp add: complex_defs)

lemma pow_2_9:
  "Complex_pow \<lparr>re = Num 2, im = Num 0\<rparr> \<lparr>re = Num 9, im = Num 0\<rparr> =
   \<lparr>re = Num 512, im = Num 0\<rparr>"
  by (simp add: complex_defs)

lemma compile_neg_pow:
  "Expression_new (Some ''-2^2'') =
     (Inr (),
      \<lparr>ast = Some (BinaryOperation ''^'' (UnaryMinus (Constant (Num 2))) (Constant (Num 2))),
       jsFunction = StaticCall ''pow''
         [StaticCall ''mul'' [NewComplex (Num (- 1)) (Num 0), NewComplex (Num 2) (Num 0)],
          NewComplex (Num 2) (Num 0)]\<rparr>)"
  by (simp add: facade_defs tokenizer_defs parser_defs)

lemma run_neg_pow:
  "run_js (StaticCall ''pow''
         [StaticCall ''mul'' [NewComplex (Num (- 1)) (Num 0), NewComplex (Num 2) (Num 0)],
          NewComplex (Num 2) (Num 0)]) z = Inr \<lparr>re = Num 4, im = Num 0\<rparr>"
  by (simp add: Complex_static_def binary_def Complex_mul_def Complex_new_def jsub_def pow_neg2_2)

lemma compile_sum_product:
  "Expression_new (Some ''2+3*4'') =
     (Inr (),
      \<lparr>ast = Some (BinaryOperation ''+'' (Constant (Num 2))
               (BinaryOperation ''*'' (Constant (Num 3)) (Constant (Num 4)))),
       jsFunction = StaticCall ''add''
         [NewComplex (Num 2) (Num 0),
          StaticCall ''mul'' [NewComplex (Num 3) (Num 0), NewComplex (Num 4) (Num 0)]]\<rparr>)"
  by (simp add: facade_defs tokenizer_defs parser_defs)

lemma compile_pow_pow:
  "Expression_new (Some ''2^3^2'') =
     (Inr (),
      \<lparr>ast = Some (BinaryOperation ''^'' (Constant (Num 2))
               (BinaryOperation ''^'' (Constant (Num 3)) (Constant (Num 2)))),
       jsFunction = StaticCall ''pow''
         [NewComplex (Num 2) (Num 0),
          StaticCall ''pow'' [NewComplex (Num 3) (Num 0), NewComplex (Num 2) (Num 0)]]\<rparr>)"
  by (simp add: facade_defs tokenizer_defs parser_defs)

lemma compile_sub_sub:
  "Expression_new (Some ''2-3-4'') =
     (Inr (),
      \<lparr>ast = Some (BinaryOperation ''-''
               (BinaryOperation ''-'' (Constant (Num 2)) (Constant (Num 3)))
               (Constant (Num 4))),
       jsFunction = StaticCall ''sub''
         [StaticCall ''sub'' [NewComplex (Num 2) (Num 0), NewComplex (Num 3) (Num 0)],
          NewComplex (Num 4) (Num 0)]\<rparr>)"
  by (simp add: facade_defs tokenizer_defs parser_defs)

lemma run_sum_product:
  "run_js (StaticCall ''add''
         [NewComplex (Num 2) (Num 0),
          StaticCall ''mul'' [NewComplex (Num 3) (Num 0), NewComplex (Num 4) (Num 0)]]) z =
   Inr \<lparr>re = Num 14, im = Num 0\<rparr>"
  by (simp add: Complex_static_def binary_def Complex_mul_def Complex_add_def Complex_new_def
      jsub_def)

lemma run_pow_pow:
  "run_js (StaticCall ''pow''
         [NewComplex (Num 2) (Num 0),
          StaticCall ''pow'' [NewComplex (Num 3) (Num 0), NewComplex (Num 2) (Num 0)]]) z =
   Inr \<lparr>re = Num 512, im = Num 0\<rparr>"
  by (simp add: Complex_static_def Complex_new_def pow_3_2 pow_2_9)

lemma run_sub_sub:
  "run_js (StaticCall ''sub''
         [StaticCall ''sub'' [NewComplex (Num 2) (Num 0), NewComplex (Num 3) (Num 0)],
          NewComplex (Num 4) (Num 0)]) z =
   Inr \<lparr>re = Num (- 5), im = Num 0\<rparr>"
  by (simp add: Complex_static_def binary_def Complex_sub_def Complex_new_def jsub_def)

lemma compile_z_squared:
  "Expression_new (Some ''z^2'') =
     (Inr (),
      \<lparr>ast = Some (BinaryOperation ''^'' (Variable ''z'') (Constant (Num 2))),
       jsFunction = StaticCall ''pow'' [ParamZ, NewComplex (Num 2) (Num 0)]\<rparr>)"
  by (simp add: facade_defs tokenizer_defs parser_defs)

lemma tokenize_toString_call:
  "tokenize ''toString(z)'' =
     Inr [\<lparr>type = Identifier, value = ''toString''\<rparr>, \<lparr>type = LeftParen, value = ''(''\<rparr>,
          \<lparr>type = Identifier, value = ''z''\<rparr>, \<lparr>type = RightParen, value = '')''\<rparr>]"
  by (simp add: tokenizer_defs)

lemma parse_toString_call:
  "parseTokens [\<lparr>type = Identifier, value = ''toString''\<rparr>, \<lparr>type = LeftParen, value = ''(''\<rparr>,
                \<lparr>type = Identifier, value = ''z''\<rparr>, \<lparr>type = RightParen, value = '')''\<rparr>] =
     Inr (FunctionCall ''toString'' [Variable ''z''])"
  by (simp add: parser_defs)

lemma generateJs_toString_call:
  "generateJs (FunctionCall ''toString'' [Variable ''z'']) = Inl TypeError"
  by (simp add: generateJs_def get_property_def FUNCTIONS_def CONSTANTS_def Object_prototype_def)

lemma generateGlsl_toString_call:
  "generateGlsl toPrecision (FunctionCall ''toString'' [Variable ''z'']) =
     Inr (''vec2 F_Z(vec2 z) {'' @ [CHR 0x0A] @ ''    return undefined(z);'' @ [CHR 0x0A] @ ''}'')"
  by (simp add: generateGlsl_def get_property_def FUNCTIONS_def CONSTANTS_def
      Object_prototype_def)

section \<open>What the tokenizer returns\<close>

lemma match_all_Nil_iff: "match_all s = [] \<longleftrightarrow> \<not> list_ex begins_lexeme s"
  by (induction s) (auto simp: begins_lexeme_def Let_def)

lemma space_begins_no_lexeme: "is_space c \<Longrightarrow> \<not> begins_lexeme c"
  by (auto simp: is_space_def begins_lexeme_def is_ident_start_def is_digit_def
      is_operator_char_def Let_def)

text \<open>
  The invalid-character error is raised for the non-empty inputs in which no lexeme
  begins at all, and for no other input.
\<close>

lemma tokenize_InvalidCharacters_iff:
  "tokenize input = Inl InvalidCharacters \<longleftrightarrow> input \<noteq> [] \<and> \<not> list_ex begins_lexeme input"
proof -
  have "list_ex begins_lexeme (filter (\<lambda>c. \<not> is_space c) input) = list_ex begins_lexeme input"
    using space_begins_no_lexeme by (auto simp: list_ex_iff)
  then show ?thesis
    using match_all_Nil_iff [of "filter (\<lambda>c. \<not> is_space c) input"]
    by (auto simp: tokenize_def String_match_def split: list.splits simp del: match_all.simps)
qed

lemma operator_char_other:
  "is_operator_char c \<Longrightarrow> \<not> is_ident_start c \<and> \<not> is_ident_char c \<and> \<not> is_digit c \<and> c \<noteq> CHR ''.''"
  by (auto simp: is_operator_char_def is_ident_start_def is_ident_char_def is_digit_def)

lemma operator_char_in_table: "is_operator_char c \<Longrightarrow> map_of OPERATORS [c] \<noteq> None"
  by (auto simp: is_operator_char_def OPERATORS_def)

lemma no_operator_takeWhile:
  "\<not> list_ex is_operator_char (takeWhile is_digit xs)"
  "\<not> list_ex is_operator_char (takeWhile is_ident_char xs)"
  using operator_char_other by (auto simp: list_ex_iff dest!: set_takeWhileD)

lemma match_all_Cons:
  assumes "m \<in> set (match_all (c # cs))"
  shows "(is_ident_start c \<and> m = c # takeWhile is_ident_char cs) \<or>
         (is_digit c \<and> m = c # takeWhile is_digit cs) \<or>
         (is_digit c \<and>
          m = c # takeWhile is_digit cs @ ''.'' @ takeWhile is_digit (tl (dropWhile is_digit cs))) \<or>
         m = [c] \<or>
         m \<in> set (match_all (dropWhile is_ident_char cs)) \<or>
         m \<in> set (match_all (dropWhile is_digit (tl (dropWhile is_digit cs)))) \<or>
         m \<in> set (match_all (dropWhile is_digit cs)) \<or>
         m \<in> set (match_all cs)"
  using assms by (auto simp: Let_def split: if_splits)

lemma match_all_operator:
  "m \<in> set (match_all s) \<Longrightarrow> list_ex is_operator_char m \<Longrightarrow> \<exists>c. m = [c] \<and> is_operator_char c"
proof (induction s rule: length_induct)
  case (1 s)
  show ?case
  proof (cases s)
    case Nil
    with "1.prems" show ?thesis by simp
  next
    case (Cons c cs)
    have IH: "\<exists>c. m = [c] \<and> is_operator_char c"
      if "length t \<le> length cs" and "m \<in> set (match_all t)" for t
      using "1.IH" [rule_format, of t] that Cons "1.prems"(2) by simp
    have len: "length (dropWhile P cs) \<le> length cs" for P :: "char \<Rightarrow> bool"
      by (rule length_dropWhile_le)
    have len2: "length (dropWhile is_digit (tl (dropWhile is_digit cs))) \<le> length cs"
      by (metis diff_le_self le_trans length_dropWhile_le length_tl)
    from "1.prems"(1) Cons have "m \<in> set (match_all (c # cs))" by simp
    from match_all_Cons [OF this] show ?thesis
    proof (elim disjE conjE)
      assume "is_ident_start c" and "m = c # takeWhile is_ident_char cs"
      with "1.prems"(2) no_operator_takeWhile(2) [of cs] operator_char_other [of c]
      show ?thesis by auto
    next
      assume "is_digit c" and "m = c # takeWhile is_digit cs"
      with "1.prems"(2) no_operator_takeWhile(1) [of cs] operator_char_other [of c]
      show ?thesis by auto
    next
      assume "is_digit c"
        and "m = c # takeWhile is_digit cs @ ''.'' @ takeWhile is_digit (tl (dropWhile is_digit cs))"
      with "1.prems"(2) no_operator_takeWhile(1) [of cs]
        no_operator_takeWhile(1) [of "tl (dropWhile is_digit cs)"]
        operator_char_other [of c] operator_char_other [of "CHR ''.''"]
      show ?thesis by auto
    next
      assume "m = [c]"
      with "1.prems"(2) show ?thesis by simp
    next
      assume "m \<in> set (match_all (dropWhile is_ident_char cs))"
      with IH len show ?thesis by blast
    next
      assume "m \<in> set (match_all (dropWhile is_digit (tl (dropWhile is_digit cs))))"
      with IH len2 show ?thesis by blast
    next
      assume "m \<in> set (match_all (dropWhile is_digit cs))"
      with IH len show ?thesis by blast
    next
      assume "m \<in> set (match_all cs)"
      with IH show ?thesis by blast
    qed
  qed
qed

lemma classify_fields:
  "value (classify m) = m" "type (classify m) = Operator \<Longrightarrow> list_ex is_operator_char m"
  by (auto simp: classify_def split: if_splits)

lemma tokenize_Inr:
  "tokenize source = Inr ts \<Longrightarrow>
   ts = map classify (match_all (filter (\<lambda>c. \<not> is_space c) source))"
  by (auto simp: tokenize_def String_match_def split: if_splits list.splits
      simp del: match_all.simps)

lemma tokenize_operators:
  assumes "tokenize source = Inr ts" and "t \<in> set ts" and "type t = Operator"
  shows "map_of OPERATORS (value t) \<noteq> None"
proof -
  from assms(2) tokenize_Inr [OF assms(1)]
  obtain m where m: "m \<in> set (match_all (filter (\<lambda>c. \<not> is_space c) source))"
    and t: "t = classify m"
    by auto
  from t assms(3) have "list_ex is_operator_char m" "value t = m"
    by (simp_all add: classify_fields)
  with match_all_operator [OF m] operator_char_in_table show ?thesis
    by auto
qed

section \<open>The parser on plain tokens\<close>

text \<open>
  On plain tokens every reduction keeps the trees of the output queue \<open>in_tables\<close>, so
  the tree that \<open>parseTokens\<close> returns is \<open>in_tables\<close>, and both generators return
  their text for it.
\<close>

lemma list_all_butlast: "list_all P xs \<Longrightarrow> list_all P (butlast xs)"
  by (auto simp: list_all_iff dest: in_set_butlastD)

lemma list_all_last: "list_all P xs \<Longrightarrow> xs \<noteq> [] \<Longrightarrow> P (last xs)"
  by (simp add: list_all_iff)

lemma list_all_take: "list_all P xs \<Longrightarrow> list_all P (take n xs)"
  by (auto simp: list_all_iff dest: in_set_takeD)

lemma list_all_drop: "list_all P xs \<Longrightarrow> list_all P (drop n xs)"
  by (auto simp: list_all_iff dest: in_set_dropD)

lemma applyOperator_in_tables:
  assumes "applyOperator q item = Inr q'" and "list_all in_tables q"
    and "stack_ok item" and "\<not> is_LeftParen item"
  shows "list_all in_tables q'"
proof (cases item)
  case UnaryMinusMarker
  with assms show ?thesis
    by (auto split: if_splits simp: list_all_butlast list_all_last)
next
  case (Tok t)
  show ?thesis
  proof (cases "type t = Identifier")
    case True
    with assms Tok obtain info where info: "map_of FUNCTIONS (value t) = Some info"
      by auto
    with assms Tok True show ?thesis
      by (auto simp: get_property_def Let_def list_all_take list_all_drop split: if_splits)
  next
    case False
    with assms Tok have op: "map_of OPERATORS (value t) \<noteq> None" and len: "2 \<le> length q"
      by (auto split: if_splits)
    from len have "butlast q \<noteq> []" "q \<noteq> []"
      by (cases q; cases "tl q"; auto)+
    with assms Tok False op show ?thesis
      by (auto simp: Let_def list_all_butlast list_all_last split: if_splits)
  qed
qed

lemma pop_operators_inv:
  "pop_operators op1 q stk = Inr (q', stk') \<Longrightarrow> list_all in_tables q \<Longrightarrow>
   list_all stack_ok stk \<Longrightarrow> list_all in_tables q' \<and> list_all stack_ok stk'"
proof (induction op1 q stk rule: pop_operators.induct)
  case (1 op1 q stk)
  note run = "1.prems"(1) [unfolded pop_operators.simps [of op1 q stk]]
  show ?case
  proof (cases "stk = []")
    case True
    with run "1.prems" show ?thesis by simp
  next
    case False
    then have top: "stack_ok (last stk)" and rest: "list_all stack_ok (butlast stk)"
      using "1.prems"(3) by (simp_all add: list_all_last list_all_butlast)
    show ?thesis
    proof (cases "is_LeftParen (last stk)")
      case True
      with run False "1.prems" show ?thesis by (simp add: Let_def)
    next
      case nparen: False
      show ?thesis
      proof (cases "applyOperator q (last stk)")
        case (Inl e)
        with run False nparen "1.prems" show ?thesis
          by (auto simp: Let_def split: if_splits sum.splits bool.splits)
      next
        case (Inr q1)
        then have q1: "list_all in_tables q1"
          using applyOperator_in_tables "1.prems"(2) top nparen by blast
        show ?thesis
        proof (cases "last stk = UnaryMinusMarker")
          case True
          with run False nparen Inr have "pop_operators op1 q1 (butlast stk) = Inr (q', stk')"
            by (simp add: Let_def)
          with "1.IH"(1) [OF False refl nparen True Inr _ q1 rest] show ?thesis by simp
        next
          case numinus: False
          show ?thesis
          proof (cases "is_Identifier (last stk)")
            case True
            with run False nparen numinus "1.prems" show ?thesis by (simp add: Let_def)
          next
            case nident: False
            show ?thesis
            proof (cases "binds_before op1 (case last stk of Tok t \<Rightarrow> value t | UnaryMinusMarker \<Rightarrow> [])")
              case (Inl e)
              with run False nparen numinus nident show ?thesis by (simp add: Let_def)
            next
              case b: (Inr b)
              show ?thesis
              proof (cases b)
                case True
                with run False nparen numinus nident b Inr
                have "pop_operators op1 q1 (butlast stk) = Inr (q', stk')"
                  by (simp add: Let_def)
                with "1.IH"(2) [OF \<open>stk \<noteq> []\<close> refl nparen numinus nident b eqTrueI [OF True] Inr _ q1 rest]
                show ?thesis by simp
              next
                case False
                with run \<open>stk \<noteq> []\<close> nparen numinus nident b "1.prems" show ?thesis
                  by (simp add: Let_def)
              qed
            qed
          qed
        qed
      qed
    qed
  qed
qed


lemma pop_to_paren_inv:
  "pop_to_paren q stk = Inr (q', stk') \<Longrightarrow> list_all in_tables q \<Longrightarrow>
   list_all stack_ok stk \<Longrightarrow> list_all in_tables q' \<and> list_all stack_ok stk'"
proof (induction q stk rule: pop_to_paren.induct)
  case (1 q stk)
  note run = "1.prems"(1) [unfolded pop_to_paren.simps [of q stk]]
  show ?case
  proof (cases "stk \<noteq> [] \<and> \<not> is_LeftParen (last stk)")
    case False
    with run "1.prems" show ?thesis by (auto simp del: pop_to_paren.simps)
  next
    case True
    then have top: "stack_ok (last stk)" and rest: "list_all stack_ok (butlast stk)"
      using "1.prems"(3) by (simp_all add: list_all_last list_all_butlast)
    from run True obtain q1 where q1: "applyOperator q (last stk) = Inr q1"
      and next_run: "pop_to_paren q1 (butlast stk) = Inr (q', stk')"
      by (auto split: sum.splits simp del: pop_to_paren.simps)
    have "list_all in_tables q1"
      using applyOperator_in_tables [OF q1 "1.prems"(2) top] True by simp
    with "1.IH" [OF True q1 next_run _ rest] show ?thesis by simp
  qed
qed

lemma drain_inv:
  "drain q stk = Inr q' \<Longrightarrow> list_all in_tables q \<Longrightarrow> list_all stack_ok stk \<Longrightarrow>
   list_all in_tables q'"
proof (induction q stk rule: drain.induct)
  case (1 q stk)
  note run = "1.prems"(1) [unfolded drain.simps [of q stk]]
  show ?case
  proof (cases "stk = []")
    case True
    with run "1.prems" show ?thesis by simp
  next
    case False
    then have top: "stack_ok (last stk)" and rest: "list_all stack_ok (butlast stk)"
      using "1.prems"(3) by (simp_all add: list_all_last list_all_butlast)
    from run False have nparen: "\<not> is_LeftParen (last stk)"
      by (auto simp: Let_def split: if_splits simp del: drain.simps)
    with run False obtain q1 where q1: "applyOperator q (last stk) = Inr q1"
      and next_run: "drain q1 (butlast stk) = Inr q'"
      by (auto simp: Let_def split: sum.splits simp del: drain.simps)
    have "list_all in_tables q1"
      using applyOperator_in_tables [OF q1 "1.prems"(2) top nparen] .
    with "1.IH" [OF False refl nparen q1 next_run _ rest] show ?thesis by simp
  qed
qed

lemma truthy_own: "truthy (get_property table key) \<Longrightarrow> key \<notin> set Object_prototype \<Longrightarrow>
  map_of table key \<noteq> None"
  by (auto simp: get_property_def split: option.splits if_splits)

lemma step_Number:
  "type token = Number \<Longrightarrow> step token st = Inr st' \<Longrightarrow>
   st' = st\<lparr>outputQueue := outputQueue st @ [Constant (parseFloat (value token))],
             lastToken := Some token\<rparr>"
  by (simp add: step_def split: if_splits)

lemma step_Identifier:
  "type token = Identifier \<Longrightarrow> step token st = Inr st' \<Longrightarrow>
   (truthy (get_property FUNCTIONS (value token)) \<and>
    st' = st\<lparr>operatorStack := operatorStack st @ [Tok token], lastToken := Some token\<rparr>) \<or>
   (\<not> truthy (get_property FUNCTIONS (value token)) \<and>
    (truthy (get_property CONSTANTS (value token)) \<or> value token = ''z'') \<and>
    st' = st\<lparr>outputQueue := outputQueue st @ [Variable (value token)],
              lastToken := Some token\<rparr>)"
  by (simp add: step_def split: if_splits)

lemma step_Operator:
  "type token = Operator \<Longrightarrow> step token st = Inr st' \<Longrightarrow>
   st' = st\<lparr>operatorStack := operatorStack st @ [UnaryMinusMarker], lastToken := Some token\<rparr> \<or>
   (\<exists>q stk. pop_operators (value token) (outputQueue st) (operatorStack st) = Inr (q, stk) \<and>
      st' = st\<lparr>outputQueue := q, operatorStack := stk @ [Tok token], lastToken := Some token\<rparr>)"
  by (simp add: step_def split: if_splits sum.splits prod.splits del: pop_operators.simps)

lemma step_LeftParen:
  "type token = LeftParen \<Longrightarrow> step token st = Inr st' \<Longrightarrow>
   st' = st\<lparr>operatorStack := operatorStack st @ [Tok token], lastToken := Some token\<rparr>"
  by (simp add: step_def split: if_splits)

lemma step_RightParen:
  "type token = RightParen \<Longrightarrow> step token st = Inr st' \<Longrightarrow>
   \<exists>q stk. pop_to_paren (outputQueue st) (operatorStack st) = Inr (q, stk) \<and> stk \<noteq> [] \<and>
     ((butlast stk \<noteq> [] \<and> is_Identifier (last (butlast stk)) \<and>
       (\<exists>q1. applyOperator q (last (butlast stk)) = Inr q1 \<and>
          st' = st\<lparr>outputQueue := q1, operatorStack := butlast (butlast stk),
                    lastToken := Some token\<rparr>)) \<or>
      st' = st\<lparr>outputQueue := q, operatorStack := butlast stk, lastToken := Some token\<rparr>)"
  by (simp add: step_def Let_def split: if_splits sum.splits prod.splits
      del: pop_to_paren.simps applyOperator.simps)

lemma step_Comma:
  "type token = Comma \<Longrightarrow> step token st = Inr st' \<Longrightarrow> st' = st\<lparr>lastToken := Some token\<rparr>"
  by (simp add: step_def split: if_splits)

lemma step_inv:
  assumes "step token st = Inr st'" and "plain_token token" and "state_ok st"
  shows "state_ok st'"
proof -
  from assms(3) have q: "list_all in_tables (outputQueue st)"
    and stk: "list_all stack_ok (operatorStack st)"
    by (simp_all add: state_ok_def)
  show ?thesis
  proof (cases "type token")
    case Number
    from step_Number [OF Number assms(1)] q stk show ?thesis
      by (simp add: state_ok_def)
  next
    case Identifier
    with assms(2) have plain: "value token \<notin> set Object_prototype"
      by (simp add: plain_token_def)
    have f: "map_of FUNCTIONS (value token) \<noteq> None"
      if "truthy (get_property FUNCTIONS (value token))"
      using that plain by (rule truthy_own)
    have c: "map_of CONSTANTS (value token) \<noteq> None"
      if "truthy (get_property CONSTANTS (value token))"
      using that plain by (rule truthy_own)
    from step_Identifier [OF Identifier assms(1)] f c Identifier q stk show ?thesis
      by (auto simp: state_ok_def)
  next
    case Operator
    with assms(2) have op: "map_of OPERATORS (value token) \<noteq> None"
      by (simp add: plain_token_def)
    have "state_ok (st\<lparr>outputQueue := q1, operatorStack := stk1 @ [Tok token],
                       lastToken := Some token\<rparr>)"
      if "pop_operators (value token) (outputQueue st) (operatorStack st) = Inr (q1, stk1)"
      for q1 stk1
      using pop_operators_inv [OF that q stk] Operator op by (simp add: state_ok_def)
    moreover have "state_ok (st\<lparr>operatorStack := operatorStack st @ [UnaryMinusMarker],
                               lastToken := Some token\<rparr>)"
      using q stk by (simp add: state_ok_def)
    ultimately show ?thesis
      using step_Operator [OF Operator assms(1)] by blast
  next
    case LeftParen
    from step_LeftParen [OF LeftParen assms(1)] LeftParen q stk show ?thesis
      by (simp add: state_ok_def)
  next
    case RightParen
    have "state_ok st'"
      if pop: "pop_to_paren (outputQueue st) (operatorStack st) = Inr (q1, stk1)"
        and alt: "(butlast stk1 \<noteq> [] \<and> is_Identifier (last (butlast stk1)) \<and>
           (\<exists>q2. applyOperator q1 (last (butlast stk1)) = Inr q2 \<and>
              st' = st\<lparr>outputQueue := q2, operatorStack := butlast (butlast stk1),
                        lastToken := Some token\<rparr>)) \<or>
          st' = st\<lparr>outputQueue := q1, operatorStack := butlast stk1, lastToken := Some token\<rparr>"
      for q1 stk1
    proof -
      from pop_to_paren_inv [OF pop q stk]
      have q1: "list_all in_tables q1" and stk1: "list_all stack_ok stk1"
        by simp_all
      have rest: "list_all stack_ok (butlast stk1)" "list_all stack_ok (butlast (butlast stk1))"
        using stk1 by (simp_all add: list_all_butlast)
      have "list_all in_tables q2"
        if ne: "butlast stk1 \<noteq> []" and ident: "is_Identifier (last (butlast stk1))"
          and app: "applyOperator q1 (last (butlast stk1)) = Inr q2" for q2
      proof -
        have "stack_ok (last (butlast stk1))"
          using rest(1) ne by (simp add: list_all_last)
        moreover have "\<not> is_LeftParen (last (butlast stk1))"
          using ident by (cases "last (butlast stk1)") auto
        ultimately show ?thesis
          using applyOperator_in_tables [OF app q1] by simp
      qed
      with alt q1 rest show ?thesis
        by (auto simp: state_ok_def)
    qed
    with step_RightParen [OF RightParen assms(1)] show ?thesis
      by blast
  next
    case Comma
    from step_Comma [OF Comma assms(1)] q stk show ?thesis
      by (simp add: state_ok_def)
  qed
qed

lemma run_inv:
  "run tokens st = Inr st' \<Longrightarrow> list_all plain_token tokens \<Longrightarrow> state_ok st \<Longrightarrow> state_ok st'"
proof (induction tokens arbitrary: st)
  case Nil
  then show ?case by simp
next
  case (Cons token tokens)
  from Cons.prems(1) obtain st1 where s1: "step token st = Inr st1"
    and r: "run tokens st1 = Inr st'"
    by (auto split: sum.splits)
  from step_inv [OF s1] Cons.prems have "state_ok st1" by simp
  with Cons.IH [OF r] Cons.prems(2) show ?case by simp
qed

lemma parseTokens_in_tables:
  assumes "parseTokens tokens = Inr a" and "list_all plain_token tokens"
  shows "in_tables a"
proof -
  from assms(1) obtain st q
    where r: "run tokens \<lparr>outputQueue = [], operatorStack = [], lastToken = None\<rparr> = Inr st"
      and d: "drain (outputQueue st) (operatorStack st) = Inr q"
      and one: "length q = 1" and a: "a = hd q"
    by (auto simp: parseTokens_def split: sum.splits if_splits simp del: drain.simps)
  have "state_ok st"
    using run_inv [OF r assms(2)] by (simp add: state_ok_def)
  then have "list_all in_tables q"
    using drain_inv [OF d] by (simp add: state_ok_def)
  with one a show ?thesis
    by (cases q) auto
qed


lemma collect_map_ok:
  "(\<And>x. x \<in> set xs \<Longrightarrow> \<exists>y. f x = Inr y) \<Longrightarrow> \<exists>ys. collect (map f xs) = Inr ys"
proof (induction xs)
  case Nil
  then show ?case by simp
next
  case (Cons x xs)
  then obtain y ys where "f x = Inr y" "collect (map f xs) = Inr ys"
    by (meson list.set_intros)
  then show ?case by simp
qed

lemma z_not_inherited: "get_property CONSTANTS ''z'' = Undefined"
  by (simp add: get_property_def CONSTANTS_def Object_prototype_def)

lemma get_property_own: "map_of table key \<noteq> None \<Longrightarrow> \<exists>v. get_property table key = Own v"
  by (auto simp: get_property_def)

lemma generateJsNode_ok: "in_tables a \<Longrightarrow> \<exists>code. generateJsNode a = Inr code"
proof (induction a)
  case (Constant v)
  show ?case by simp
next
  case (Variable name)
  then show ?case
    using get_property_own [of CONSTANTS name] z_not_inherited by (auto simp: Let_def)
next
  case (BinaryOperation operator l r)
  then show ?case
    using get_property_own [of OPERATORS operator] by auto
next
  case (FunctionCall functionName args)
  then have "\<And>x. x \<in> set args \<Longrightarrow> \<exists>y. generateJsNode x = Inr y"
    by (auto simp: list_all_iff split: option.splits)
  then obtain as where "collect (map generateJsNode args) = Inr as"
    using collect_map_ok by blast
  moreover from FunctionCall.prems obtain info where "get_property FUNCTIONS functionName = Own info"
    using get_property_own [of FUNCTIONS functionName] by (auto split: option.splits)
  ultimately show ?case by simp
next
  case (UnaryMinus a)
  then show ?case by auto
qed

lemma generateGlslNode_ok:
  "in_tables a \<Longrightarrow> \<exists>text. generateGlslNode toPrecision a = Inr (Some text)"
proof (induction a)
  case (Constant v)
  show ?case by simp
next
  case (Variable name)
  then show ?case
    using get_property_own [of CONSTANTS name] z_not_inherited by auto
next
  case (BinaryOperation operator l r)
  then show ?case
    using get_property_own [of OPERATORS operator] by auto
next
  case (FunctionCall functionName args)
  then have "\<And>x. x \<in> set args \<Longrightarrow> \<exists>y. generateGlslNode toPrecision x = Inr y"
    by (auto simp: list_all_iff split: option.splits)
  then obtain as where "collect (map (generateGlslNode toPrecision) args) = Inr as"
    using collect_map_ok by blast
  moreover from FunctionCall.prems obtain info where "get_property FUNCTIONS functionName = Own info"
    using get_property_own [of FUNCTIONS functionName] by (auto split: option.splits)
  ultimately show ?case by simp
next
  case (UnaryMinus a)
  then show ?case by auto
qed

text \<open>The tokens of \<open>pow(z,2)\<close> are plain, and their tree is \<open>in_tables\<close>.\<close>

lemma plain_tokens_example:
  "list_all plain_token
     [\<lparr>type = Identifier, value = ''pow''\<rparr>, \<lparr>type = LeftParen, value = ''(''\<rparr>,
      \<lparr>type = Identifier, value = ''z''\<rparr>, \<lparr>type = Comma, value = '',''\<rparr>,
      \<lparr>type = Number, value = ''2''\<rparr>, \<lparr>type = RightParen, value = '')''\<rparr>] \<and>
   parseTokens
     [\<lparr>type = Identifier, value = ''pow''\<rparr>, \<lparr>type = LeftParen, value = ''(''\<rparr>,
      \<lparr>type = Identifier, value = ''z''\<rparr>, \<lparr>type = Comma, value = '',''\<rparr>,
      \<lparr>type = Number, value = ''2''\<rparr>, \<lparr>type = RightParen, value = '')''\<rparr>] =
     Inr (FunctionCall ''pow'' [Variable ''z'', Constant (Num 2)]) \<and>
   in_tables (FunctionCall ''pow'' [Variable ''z'', Constant (Num 2)])"
  by (simp add: plain_token_def parser_defs tokenizer_defs)

section \<open>The facade's update\<close>

text \<open>
  Claim C1 (transactional recompilation). \<open>parse\<close> assigns the field \<open>ast\<close> before it
  generates the evaluator, and the generator raises on a call of a name that \<open>FUNCTIONS\<close>
  only inherits. On an object compiled from \<open>z^2\<close>, \<open>parse("toString(z)")\<close> raises
  and leaves the new tree beside the old evaluator; the shader text read from the object
  afterwards is that of the new tree.
\<close>

theorem parse_not_transactional:
  "Expression_new (Some ''z^2'') =
     (Inr (),
      \<lparr>ast = Some (BinaryOperation ''^'' (Variable ''z'') (Constant (Num 2))),
       jsFunction = StaticCall ''pow'' [ParamZ, NewComplex (Num 2) (Num 0)]\<rparr>) \<and>
   Expression_parse ''toString(z)''
     \<lparr>ast = Some (BinaryOperation ''^'' (Variable ''z'') (Constant (Num 2))),
      jsFunction = StaticCall ''pow'' [ParamZ, NewComplex (Num 2) (Num 0)]\<rparr> =
     (Inl TypeError,
      \<lparr>ast = Some (FunctionCall ''toString'' [Variable ''z'']),
       jsFunction = StaticCall ''pow'' [ParamZ, NewComplex (Num 2) (Num 0)]\<rparr>) \<and>
   getGlslCode toPrecision
     \<lparr>ast = Some (FunctionCall ''toString'' [Variable ''z'']),
      jsFunction = StaticCall ''pow'' [ParamZ, NewComplex (Num 2) (Num 0)]\<rparr> =
     Inr (''vec2 F_Z(vec2 z) {'' @ [CHR 0x0A] @ ''    return undefined(z);'' @ [CHR 0x0A] @ ''}'')"
  by (simp add: compile_z_squared Expression_parse_def tokenize_toString_call
      parse_toString_call generateJs_toString_call getGlslCode_def generateGlsl_toString_call)

text \<open>
  What does hold of \<open>parse\<close>: an error of the tokenizer or of the parser leaves the object
  as it was, and a normal return has replaced both fields, the evaluator being the one
  generated from the new tree.
\<close>

lemma parse_error_before_generation:
  "tokenize source = Inl e \<Longrightarrow> Expression_parse source this = (Inl e, this)"
  "tokenize source = Inr tokens \<Longrightarrow> parseTokens tokens = Inl e \<Longrightarrow>
   Expression_parse source this = (Inl e, this)"
  by (simp_all add: Expression_parse_def)

lemma parse_success_replaces_both:
  "Expression_parse source this = (Inr (), this') \<Longrightarrow>
   \<exists>a jsCode. generateJs a = Inr jsCode \<and> this' = this\<lparr>ast := Some a, jsFunction := jsCode\<rparr>"
  by (auto simp: Expression_parse_def Let_def split: sum.splits)

text \<open>
  For a source none of whose identifiers is the name of a property of
  \<open>Object.prototype\<close>, the update is all or nothing.
\<close>

lemma parse_transactional_plain:
  assumes plain: "\<And>ts t. tokenize source = Inr ts \<Longrightarrow> t \<in> set ts \<Longrightarrow> type t = Identifier \<Longrightarrow>
                  value t \<notin> set Object_prototype"
  shows "(\<exists>e. Expression_parse source this = (Inl e, this)) \<or>
         (\<exists>a jsCode. generateJs a = Inr jsCode \<and>
            Expression_parse source this =
              (Inr (), this\<lparr>ast := Some a, jsFunction := jsCode\<rparr>))"
proof (cases "tokenize source")
  case (Inl e)
  then show ?thesis by (simp add: Expression_parse_def)
next
  case ts: (Inr ts)
  have tokens: "list_all plain_token ts"
    using plain [OF ts] tokenize_operators [OF ts]
    by (auto simp: list_all_iff plain_token_def)
  show ?thesis
  proof (cases "parseTokens ts")
    case (Inl e)
    with ts show ?thesis by (simp add: Expression_parse_def)
  next
    case (Inr a)
    then have "in_tables a"
      using tokens by (rule parseTokens_in_tables)
    then obtain jsCode where "generateJs a = Inr jsCode"
      using generateJsNode_ok by (auto simp: generateJs_def)
    with ts Inr show ?thesis
      by (auto simp: Expression_parse_def)
  qed
qed

section \<open>Tokenizer results\<close>

text \<open>
  Claim C2 (a character that no pattern consumes is an error). The global match passes
  over such a character: \<open>tokenize("2 $ 3")\<close> returns the two number tokens.
\<close>

theorem tokenize_skips_unmatched_character:
  "tokenize ''2 $ 3'' =
     Inr [\<lparr>type = Number, value = ''2''\<rparr>, \<lparr>type = Number, value = ''3''\<rparr>]"
  by (simp add: tokenizer_defs)

text \<open>
  Claim C9 (an input that is empty after trimming gives the empty-input error), as the
  code has it: the empty string gives the empty-input error, and a string of one or more
  whitespace characters gives the invalid-character error.
\<close>

theorem tokenize_blank:
  "tokenize [] = Inl FunctionEmpty \<and>
   (input \<noteq> [] \<and> list_all is_space input \<longrightarrow> tokenize input = Inl InvalidCharacters)"
proof -
  have "filter (\<lambda>c. \<not> is_space c) input = []" if "list_all is_space input"
    using that by (simp add: list_all_iff)
  then show ?thesis
    by (simp add: tokenize_def String_match_def)
qed

text \<open>The theorem at a string of two spaces.\<close>

theorem tokenize_blank_witness:
  "''  '' \<noteq> [] \<and> list_all is_space ''  '' \<and> tokenize ''  '' = Inl InvalidCharacters"
  using tokenize_blank [of "''  ''"] by (simp add: is_space_def)

text \<open>Claim C9 as stated fails at the string of one space.\<close>

theorem tokenize_blank_counterexample:
  "tokenize '' '' = Inl InvalidCharacters \<and> tokenize '' '' \<noteq> Inl FunctionEmpty"
  by (simp add: tokenizer_defs)

section \<open>Parser results\<close>

text \<open>
  Claim C3 (a minus sign after an operator is a unary minus). The check that no operator
  follows an operator runs before the \<open>switch\<close> and has no exception for \<open>-\<close>:
  the parser raises on \<open>2*-3\<close> and on \<open>2^-1\<close>.
\<close>

theorem minus_after_operator_rejected:
  "tokenize ''2*-3'' =
     Inr [\<lparr>type = Number, value = ''2''\<rparr>, \<lparr>type = Operator, value = ''*''\<rparr>,
          \<lparr>type = Operator, value = ''-''\<rparr>, \<lparr>type = Number, value = ''3''\<rparr>] \<and>
   parseTokens [\<lparr>type = Number, value = ''2''\<rparr>, \<lparr>type = Operator, value = ''*''\<rparr>,
                \<lparr>type = Operator, value = ''-''\<rparr>, \<lparr>type = Number, value = ''3''\<rparr>] =
     Inl (OperatorAfterOperator ''-'' ''*'') \<and>
   parseTokens [\<lparr>type = Number, value = ''2''\<rparr>, \<lparr>type = Operator, value = ''^''\<rparr>,
                \<lparr>type = Operator, value = ''-''\<rparr>, \<lparr>type = Number, value = ''1''\<rparr>] =
     Inl (OperatorAfterOperator ''-'' ''^'')"
  by (simp add: tokenizer_defs parser_defs)

text \<open>The same for every round of the loop that meets an operator after an operator.\<close>

lemma step_operator_after_operator:
  "type token = Operator \<Longrightarrow> last_type st = Some Operator \<Longrightarrow>
   step token st = Inl (OperatorAfterOperator (value token) (last_value st))"
  by (simp add: step_def)

text \<open>A call of \<open>sin\<close> takes the last node of the output queue and no other.\<close>

lemma applyOperator_sin:
  "applyOperator q (Tok \<lparr>type = Identifier, value = ''sin''\<rparr>) =
     (if q = [] then Inl (NotEnoughArguments ''sin'')
      else Inr (butlast q @ [FunctionCall ''sin'' [last q]]))"
proof (cases q rule: rev_cases)
  case Nil
  then show ?thesis by (simp add: get_property_def FUNCTIONS_def)
next
  case (snoc ys y)
  then show ?thesis by (simp add: get_property_def FUNCTIONS_def)
qed



text \<open>
  Claim C10 (every call node of a parsed tree names an entry of \<open>FUNCTIONS\<close> and has as
  many arguments as its arity, so that the generators' lookups find an entry). The parser
  tests \<open>FUNCTIONS[name]\<close> for truth, which an inherited property passes: the input
  \<open>toString\<close> parses to a call of \<open>toString\<close>, which is no entry of the table, and
  the generator raises on it; with arguments, the call takes the whole output queue.
\<close>

theorem parser_output_not_in_tables:
  "tokenize ''toString'' = Inr [\<lparr>type = Identifier, value = ''toString''\<rparr>] \<and>
   parseTokens [\<lparr>type = Identifier, value = ''toString''\<rparr>] = Inr (FunctionCall ''toString'' []) \<and>
   map_of FUNCTIONS ''toString'' = None \<and>
   generateJs (FunctionCall ''toString'' []) = Inl TypeError \<and>
   parseTokens [\<lparr>type = Identifier, value = ''toString''\<rparr>, \<lparr>type = LeftParen, value = ''(''\<rparr>,
                \<lparr>type = Number, value = ''1''\<rparr>, \<lparr>type = Comma, value = '',''\<rparr>,
                \<lparr>type = Number, value = ''2''\<rparr>, \<lparr>type = RightParen, value = '')''\<rparr>] =
     Inr (FunctionCall ''toString'' [Constant (Num 1), Constant (Num 2)])"
  by (simp add: tokenizer_defs parser_defs generateJs_def)

section \<open>Evaluation results\<close>

text \<open>
  Claim C4 (the value of \<open>-2^2\<close>), as the code has it: the unary minus is reduced before
  \<open>^\<close> is pushed, the tree is \<open>(-2)^2\<close>, and the value is 4 at every input.
\<close>

theorem neg_pow_evaluates_to_four:
  "fst (Expression_new (Some ''-2^2'')) = Inr () \<and>
   ast (snd (Expression_new (Some ''-2^2''))) =
     Some (BinaryOperation ''^'' (UnaryMinus (Constant (Num 2))) (Constant (Num 2))) \<and>
   evaluate (snd (Expression_new (Some ''-2^2''))) z = Inr \<lparr>re = Num 4, im = Num 0\<rparr>"
  by (simp add: compile_neg_pow evaluate_def run_neg_pow del: run_js.simps)

text \<open>Claim C4 as stated fails: at the input 0 the value is 4, not -4.\<close>

theorem neg_pow_counterexample:
  "evaluate (snd (Expression_new (Some ''-2^2''))) \<lparr>re = Num 0, im = Num 0\<rparr> =
     Inr \<lparr>re = Num 4, im = Num 0\<rparr> \<and>
   evaluate (snd (Expression_new (Some ''-2^2''))) \<lparr>re = Num 0, im = Num 0\<rparr> \<noteq>
     Inr \<lparr>re = Num (- 4), im = Num 0\<rparr>"
  by (simp add: compile_neg_pow evaluate_def run_neg_pow del: run_js.simps)

text \<open>
  Claim C5 (precedence and associativity): \<open>2+3*4\<close> evaluates to 14, \<open>2^3^2\<close> to 512
  and \<open>2-3-4\<close> to -5, at every input.
\<close>

theorem precedence_and_associativity:
  "fst (Expression_new (Some ''2+3*4'')) = Inr () \<and>
   evaluate (snd (Expression_new (Some ''2+3*4''))) z = Inr \<lparr>re = Num 14, im = Num 0\<rparr> \<and>
   fst (Expression_new (Some ''2^3^2'')) = Inr () \<and>
   evaluate (snd (Expression_new (Some ''2^3^2''))) z = Inr \<lparr>re = Num 512, im = Num 0\<rparr> \<and>
   fst (Expression_new (Some ''2-3-4'')) = Inr () \<and>
   evaluate (snd (Expression_new (Some ''2-3-4''))) z = Inr \<lparr>re = Num (- 5), im = Num 0\<rparr>"
  by (simp add: compile_sum_product compile_pow_pow compile_sub_sub evaluate_def
      run_sum_product run_pow_pow run_sub_sub del: run_js.simps)

section \<open>Arithmetic results\<close>

text \<open>
  Claim C7 (inverse of zero and division by zero), as the code has it: the inverse of zero
  is the pair of positive infinities; a division by zero is the product with that pair,
  whose components are never finite and never both the positive infinity.
\<close>

theorem inv_zero_div_zero:
  "Complex_inv \<lparr>re = Num 0, im = Num 0\<rparr> = \<lparr>re = PosInf, im = PosInf\<rparr> \<and>
   Complex_div a \<lparr>re = Num 0, im = Num 0\<rparr> = Complex_mul a \<lparr>re = PosInf, im = PosInf\<rparr> \<and>
   Complex_div a \<lparr>re = Num 0, im = Num 0\<rparr> \<noteq> \<lparr>re = PosInf, im = PosInf\<rparr> \<and>
   (\<forall>x. re (Complex_div a \<lparr>re = Num 0, im = Num 0\<rparr>) \<noteq> Num x) \<and>
   (\<forall>x. im (Complex_div a \<lparr>re = Num 0, im = Num 0\<rparr>) \<noteq> Num x)"
proof -
  have inv0: "Complex_inv \<lparr>re = Num 0, im = Num 0\<rparr> = \<lparr>re = PosInf, im = PosInf\<rparr>"
    by (simp add: Complex_inv_def Complex_new_def)
  have prod: "jmul u PosInf = NaN \<or> jmul u PosInf = PosInf \<or> jmul u PosInf = NegInf" for u
    by (cases u) (simp_all add: inf_times_def)
  have re_im: "\<not> (jsub (jmul (re a) PosInf) (jmul (im a) PosInf) = PosInf \<and>
                  jadd (jmul (re a) PosInf) (jmul (im a) PosInf) = PosInf)"
    using prod [of "re a"] prod [of "im a"] by (auto simp: jsub_def)
  have fin_sub: "jsub (jmul (re a) PosInf) (jmul (im a) PosInf) \<noteq> Num x" for x
    using prod [of "re a"] prod [of "im a"] by (auto simp: jsub_def)
  have fin_add: "jadd (jmul (re a) PosInf) (jmul (im a) PosInf) \<noteq> Num x" for x
    using prod [of "re a"] prod [of "im a"] by auto
  show ?thesis
    using re_im fin_sub fin_add
    by (simp add: Complex_div_def inv0 Complex_mul_def Complex_new_def)
qed

text \<open>Claim C7 as stated fails: 1 divided by zero has two NaN components.\<close>

theorem div_by_zero_counterexample:
  "Complex_div \<lparr>re = Num 1, im = Num 0\<rparr> \<lparr>re = Num 0, im = Num 0\<rparr> = \<lparr>re = NaN, im = NaN\<rparr> \<and>
   Complex_div \<lparr>re = Num 1, im = Num 0\<rparr> \<lparr>re = Num 0, im = Num 0\<rparr> \<noteq>
     \<lparr>re = PosInf, im = PosInf\<rparr>"
  by (simp add: Complex_div_def Complex_inv_def Complex_mul_def Complex_new_def jsub_def
      inf_times_def)

text \<open>
  Claim C8 (power of the zero base): \<open>Complex.pow\<close> and the shader's \<open>c_pow\<close> return
  zero for the base zero, whatever the exponent.
\<close>

theorem pow_zero_base:
  "Complex_pow \<lparr>re = Num 0, im = Num 0\<rparr> p = \<lparr>re = Num 0, im = Num 0\<rparr> \<and>
   c_pow (Num 0, Num 0) q = (Num 0, Num 0)"
  by (simp add: Complex_pow_def Complex_new_def c_pow_def length_vec2_def Let_def)

end
